theory Spec2Isabelle
  imports Complex_Main "HOL-Library.Sublist"
begin

section \<open>JavaScript values, strings and numbers\<close>

text \<open>
  The handler stores whatever the webhook's JSON holds into a message, so a message text is a
  JavaScript value, not only a string. \<open>JUndefined\<close> is the result of reading a property
  that an object does not have. A number is read as a real; the code only tests it for
  truthiness.
\<close>

datatype jsval =
    JUndefined
  | JNull
  | JBool bool
  | JNum real
  | JStr string
  | JArr "jsval list"
  | JObj "(string \<times> jsval) list"

datatype exn = SyntaxError | TypeError

text \<open>JavaScript truthiness: \<open>undefined\<close>, \<open>null\<close>, \<open>false\<close>, \<open>0\<close> and \<open>""\<close> are falsy.\<close>

fun truthy :: "jsval \<Rightarrow> bool" where
  "truthy JUndefined = False"
| "truthy JNull = False"
| "truthy (JBool b) = b"
| "truthy (JNum x) = (x \<noteq> 0)"
| "truthy (JStr s) = (s \<noteq> [])"
| "truthy (JArr xs) = True"
| "truthy (JObj kvs) = True"

text \<open>
  \<open>v.k\<close> for the keys the handler reads (\<open>response\<close>, \<open>message\<close>, \<open>text\<close>): an own
  property of an object, \<open>undefined\<close> on every other value that has properties, and a
  TypeError on \<open>null\<close> and \<open>undefined\<close>.
\<close>

fun getProp :: "jsval \<Rightarrow> string \<Rightarrow> exn + jsval" where
  "getProp JUndefined k = Inl TypeError"
| "getProp JNull k = Inl TypeError"
| "getProp (JObj kvs) k = (case map_of kvs k of Some v \<Rightarrow> Inr v | None \<Rightarrow> Inr JUndefined)"
| "getProp v k = Inr JUndefined"

text \<open>\<open>v?.k\<close>: \<open>undefined\<close> instead of the TypeError.\<close>

fun getPropOpt :: "jsval \<Rightarrow> string \<Rightarrow> jsval" where
  "getPropOpt v k = (case getProp v k of Inl e \<Rightarrow> JUndefined | Inr x \<Rightarrow> x)"

text \<open>
  \<open>String.prototype.trim\<close>. A character is a code unit below 256; the white space and line
  terminators in that range are TAB, LF, VT, FF, CR, SP and NBSP.
\<close>

definition isWhiteSpace :: "char \<Rightarrow> bool" where
  "isWhiteSpace c =
     (c = CHR 0x09 \<or> c = CHR 0x0A \<or> c = CHR 0x0B \<or> c = CHR 0x0C \<or> c = CHR 0x0D
      \<or> c = CHR 0x20 \<or> c = CHR 0xA0)"

definition trim :: "string \<Rightarrow> string" where
  "trim s = rev (dropWhile isWhiteSpace (rev (dropWhile isWhiteSpace s)))"

text \<open>\<open>Number.prototype.toString\<close> on a non-negative integer (\<open>Date.now()\<close>, a status code).\<close>

definition digit :: "nat \<Rightarrow> char" where
  "digit d = ''0123456789'' ! d"

function toString :: "nat \<Rightarrow> string" where
  "toString n = (if n < 10 then [digit n] else toString (n div 10) @ [digit (n mod 10)])"
  by pat_completeness auto
termination
  by (relation "measure (\<lambda>n. n)") auto

declare toString.simps [simp del]

section \<open>Data model\<close>

datatype sender = creator | customer

record Message =
  id' :: string
  text' :: jsval
  type :: sender
  timestamp :: nat

datatype variant = default | destructive

record Toast =
  title :: string
  description :: string
  variant :: variant

record Request =
  url :: string
  method' :: string
  headers :: "(string \<times> string) list"
  body :: string

text \<open>
  A \<open>Response\<close> of the Fetch API. Its body can be read once: \<open>json()\<close> and \<open>text()\<close>
  consume it and set \<open>bodyUsed\<close>, and either of them rejects with a TypeError on a body that
  was read before. \<open>content = None\<close> is a response with a null body (as a 204 has), which
  reads as the empty byte sequence every time.
\<close>

record Response =
  status :: nat
  content :: "string option"
  bodyUsed :: bool

text \<open>How the promise of \<open>fetch\<close> settles: a response (status and body), or a network error.\<close>

datatype settlement = Fulfilled nat "string option" | Rejected

text \<open>
  The component's state (\<open>useState\<close>), with the two effects it has on the outside: the
  notifications shown and the requests sent, each in order. \<open>settled\<close> counts the requests
  whose promise has settled.
\<close>

record state =
  messages :: "Message list"
  inputValue :: string
  isLoading :: bool
  toasts :: "Toast list"
  fetches :: "Request list"
  settled :: nat

text \<open>
  The functions of the platform that the handler calls and this development leaves open:
  \<open>JSON.parse\<close> (\<open>None\<close> when it throws a SyntaxError), \<open>JSON.stringify\<close> and the string
  conversion of a template literal.
\<close>

record platform =
  JSON_parse :: "string \<Rightarrow> jsval option"
  JSON_stringify :: "jsval \<Rightarrow> string"
  ToString :: "jsval \<Rightarrow> string"

definition initial :: "nat \<Rightarrow> state" where
  "initial now =
     \<lparr>messages = [\<lparr>id' = ''1'', text' = JStr ''Hey there! What can I help you with today?'',
                    type = creator, timestamp = now\<rparr>],
      inputValue = [], isLoading = False, toasts = [], fetches = [], settled = 0\<rparr>"

section \<open>The Fetch response\<close>

definition ok :: "Response \<Rightarrow> bool" where
  "ok r = (200 \<le> status r \<and> status r \<le> 299)"

definition response_json :: "platform \<Rightarrow> Response \<Rightarrow> Response \<times> (exn + jsval)" where
  "response_json P r =
     (case content r of
        None \<Rightarrow> (r, case JSON_parse P [] of None \<Rightarrow> Inl SyntaxError | Some v \<Rightarrow> Inr v)
      | Some b \<Rightarrow>
          if bodyUsed r then (r, Inl TypeError)
          else (r\<lparr>bodyUsed := True\<rparr>,
                case JSON_parse P b of None \<Rightarrow> Inl SyntaxError | Some v \<Rightarrow> Inr v))"

definition response_text :: "Response \<Rightarrow> Response \<times> (exn + string)" where
  "response_text r =
     (case content r of
        None \<Rightarrow> (r, Inr [])
      | Some b \<Rightarrow>
          if bodyUsed r then (r, Inl TypeError)
          else (r\<lparr>bodyUsed := True\<rparr>, Inr b))"

section \<open>handleSendMessage (src/pages/Index.tsx)\<close>

definition removeTyping :: "Message list \<Rightarrow> Message list" where
  "removeTyping prev = filter (\<lambda>msg. id' msg \<noteq> ''typing'') prev"

text \<open>
  The handler up to its first \<open>await\<close>: the guard on the trimmed input, the flag, the
  customer's message, the cleared input, the typing indicator and the call of \<open>fetch\<close>.
  \<open>now\<close> is the clock when it runs: \<open>Date.now()\<close> and the two \<open>new Date()\<close> of this
  stretch, which has no \<open>await\<close> in it, are read as one instant.
\<close>

definition handleSendMessage_begin :: "platform \<Rightarrow> nat \<Rightarrow> state \<Rightarrow> state" where
  "handleSendMessage_begin P now s =
     (if trim (inputValue s) = [] then s
      else
        let messageText = trim (inputValue s);
            newMessage = \<lparr>id' = toString now, text' = JStr messageText,
                          type = customer, timestamp = now\<rparr>;
            typingMessage = \<lparr>id' = ''typing'', text' = JStr ''AI is typing...'',
                             type = creator, timestamp = now\<rparr>
        in s\<lparr>isLoading := True,
             messages := (messages s @ [newMessage]) @ [typingMessage],
             inputValue := [],
             fetches := fetches s @
               [\<lparr>url = ''https://burtsevtest.app.n8n.cloud/webhook-test/aichatdemo'',
                 method' = ''POST'',
                 headers = [(''Content-Type'', ''application/json'')],
                 body = JSON_stringify P (JObj [(''message'', JStr messageText)])\<rparr>]\<rparr>)"

text \<open>
  The chain of lines 87 to 97: the first truthy one of the fields \<open>response\<close>, \<open>message\<close>
  and \<open>text\<close>, then the data itself when it is a string, then its JSON text. Reading a field
  of \<open>null\<close> throws.
\<close>

definition extractMessage :: "platform \<Rightarrow> jsval \<Rightarrow> exn + jsval" where
  "extractMessage P responseData =
     (case getProp responseData ''response'' of
        Inl e \<Rightarrow> Inl e
      | Inr r \<Rightarrow>
          if truthy r then Inr r
          else
            (case getProp responseData ''message'' of
               Inl e \<Rightarrow> Inl e
             | Inr m \<Rightarrow>
                 if truthy m then Inr m
                 else
                   (case getProp responseData ''text'' of
                      Inl e \<Rightarrow> Inl e
                    | Inr t \<Rightarrow>
                        if truthy t then Inr t
                        else
                          (case responseData of
                             JStr str \<Rightarrow> Inr (JStr str)
                           | _ \<Rightarrow> Inr (JStr (JSON_stringify P responseData))))))"

text \<open>
  The inner \<open>try\<close> of lines 81 to 102: \<open>response.json()\<close> and the chain; when either throws,
  \<open>response.text()\<close> on the same response. An exception of \<open>text()\<close> leaves the block.
\<close>

definition readResponseMessage :: "platform \<Rightarrow> Response \<Rightarrow> exn + jsval" where
  "readResponseMessage P response =
     (case response_json P response of
        (response1, Inr responseData) \<Rightarrow>
          (case extractMessage P responseData of
             Inr responseMessage \<Rightarrow> Inr responseMessage
           | Inl jsonError \<Rightarrow>
               (case snd (response_text response1) of
                  Inl e \<Rightarrow> Inl e | Inr str \<Rightarrow> Inr (JStr str)))
      | (response1, Inl jsonError) \<Rightarrow>
          (case snd (response_text response1) of
             Inl e \<Rightarrow> Inl e | Inr str \<Rightarrow> Inr (JStr str)))"

text \<open>The outer \<open>catch\<close> block of lines 129 to 139.\<close>

definition connectionError :: "state \<Rightarrow> state" where
  "connectionError s =
     s\<lparr>messages := removeTyping (messages s),
       toasts := toasts s @
         [\<lparr>title = ''Connection Error'',
           description = ''Failed to connect to the webhook. Please try again.'',
           variant = destructive\<rparr>]\<rparr>"

text \<open>
  The handler from the point where the promise of \<open>fetch\<close> settles, with \<open>finally\<close> last.
  \<open>now\<close> is the clock at that time.
\<close>

definition handleSendMessage_settle :: "platform \<Rightarrow> nat \<Rightarrow> settlement \<Rightarrow> state \<Rightarrow> state" where
  "handleSendMessage_settle P now outcome s =
     (let s' =
        (case outcome of
           Rejected \<Rightarrow> connectionError s
         | Fulfilled st b \<Rightarrow>
             let response = \<lparr>status = st, content = b, bodyUsed = False\<rparr>
             in if ok response then
                  (case readResponseMessage P response of
                     Inl error \<Rightarrow> connectionError s
                   | Inr responseMessage \<Rightarrow>
                       s\<lparr>messages := removeTyping (messages s) @
                            [\<lparr>id' = toString (now + 1),
                              text' = (if truthy responseMessage then responseMessage
                                       else JStr ''No response received''),
                              type = creator, timestamp = now\<rparr>],
                         toasts := toasts s @
                            [\<lparr>title = ''Response received'',
                              description = ''AI has responded to your message.'',
                              variant = default\<rparr>]\<rparr>)
                else
                  s\<lparr>messages := removeTyping (messages s),
                    toasts := toasts s @
                      [\<lparr>title = ''Webhook Error'',
                        description = ''Server responded with status '' @ toString (status response),
                        variant = destructive\<rparr>]\<rparr>)
      in s'\<lparr>isLoading := False\<rparr>)"

text \<open>One whole call: nothing is awaited when the guard returns.\<close>

definition handleSendMessage :: "platform \<Rightarrow> nat \<Rightarrow> nat \<Rightarrow> settlement \<Rightarrow> state \<Rightarrow> state" where
  "handleSendMessage P now now' outcome s =
     (if trim (inputValue s) = [] then handleSendMessage_begin P now s
      else handleSendMessage_settle P now' outcome (handleSendMessage_begin P now s))"

section \<open>The form\<close>

text \<open>
  The handler is a closure: it reads the \<open>inputValue\<close> of the render that created it
  (lines 37 and 41), not the state as it is when the handler runs, and it never reads
  \<open>isLoading\<close>. Its writes go to the state: \<open>setMessages\<close> with an updater of the
  transcript as it is then, the other setters with constants. \<open>rendered\<close> is the input
  value of that render; with the render up to date it is \<open>inputValue s\<close>, which gives
  \<open>handleSendMessage_begin\<close>.
\<close>

definition handleSendMessage_begin_rendered ::
  "platform \<Rightarrow> nat \<Rightarrow> string \<Rightarrow> state \<Rightarrow> state" where
  "handleSendMessage_begin_rendered P now rendered s =
     (if trim rendered = [] then s
      else
        let messageText = trim rendered;
            newMessage = \<lparr>id' = toString now, text' = JStr messageText,
                          type = customer, timestamp = now\<rparr>;
            typingMessage = \<lparr>id' = ''typing'', text' = JStr ''AI is typing...'',
                             type = creator, timestamp = now\<rparr>
        in s\<lparr>isLoading := True,
             messages := (messages s @ [newMessage]) @ [typingMessage],
             inputValue := [],
             fetches := fetches s @
               [\<lparr>url = ''https://burtsevtest.app.n8n.cloud/webhook-test/aichatdemo'',
                 method' = ''POST'',
                 headers = [(''Content-Type'', ''application/json'')],
                 body = JSON_stringify P (JObj [(''message'', JStr messageText)])\<rparr>]\<rparr>)"

text \<open>\<open>onChange\<close> of the input (line 202).\<close>

definition Input_onChange :: "string \<Rightarrow> state \<Rightarrow> state" where
  "Input_onChange v s = s\<lparr>inputValue := v\<rparr>"



text \<open>
  What can happen to the component: a change of the input, a submit of the form (line 198)
  that runs the handler of a render which saw the given input value, a call of the handler
  of the current render, and the settling of a request that is in flight.
\<close>

datatype event =
    Change string
  | Submit nat string
  | Call nat
  | Settle nat settlement

fun step :: "platform \<Rightarrow> state \<Rightarrow> event \<Rightarrow> state" where
  "step P s (Change v) = Input_onChange v s"
| "step P s (Submit now rendered) = handleSendMessage_begin_rendered P now rendered s"
| "step P s (Call now) = handleSendMessage_begin P now s"
| "step P s (Settle now outcome) =
     (if settled s < length (fetches s)
      then handleSendMessage_settle P now outcome (s\<lparr>settled := settled s + 1\<rparr>)
      else s)"

definition run :: "platform \<Rightarrow> state \<Rightarrow> event list \<Rightarrow> state" where
  "run P s es = foldl (step P) s es"

section \<open>The other revisions of the handler\<close>

text \<open>
  src/unnamed/part\_001: the same form and the same typing indicator; on a 2xx response it
  reads \<open>responseData?.message\<close> only, and \<open>response.json()\<close> is not inside a \<open>try\<close> of
  its own.
\<close>

definition handleSendMessage_begin_part_001 :: "platform \<Rightarrow> nat \<Rightarrow> state \<Rightarrow> state" where
  "handleSendMessage_begin_part_001 P now s =
     (if trim (inputValue s) = [] then s
      else
        let messageText = trim (inputValue s);
            newMessage = \<lparr>id' = toString now, text' = JStr messageText,
                          type = customer, timestamp = now\<rparr>;
            typingMessage = \<lparr>id' = ''typing'', text' = JStr ''Typing...'',
                             type = creator, timestamp = now\<rparr>
        in s\<lparr>isLoading := True,
             messages := (messages s @ [newMessage]) @ [typingMessage],
             inputValue := [],
             fetches := fetches s @
               [\<lparr>url = ''https://n8n.mjdraperiesandinteriors.com/webhook/aichatdemo'',
                 method' = ''POST'',
                 headers = [(''Content-Type'', ''application/json'')],
                 body = JSON_stringify P (JObj [(''messageText'', JStr messageText)])\<rparr>]\<rparr>)"

definition handleSendMessage_settle_part_001 ::
  "platform \<Rightarrow> nat \<Rightarrow> settlement \<Rightarrow> state \<Rightarrow> state" where
  "handleSendMessage_settle_part_001 P now outcome s =
     (let s' =
        (case outcome of
           Rejected \<Rightarrow> connectionError s
         | Fulfilled st b \<Rightarrow>
             let response = \<lparr>status = st, content = b, bodyUsed = False\<rparr>
             in if ok response then
                  (case snd (response_json P response) of
                     Inl error \<Rightarrow> connectionError s
                   | Inr responseData \<Rightarrow>
                       let actualMessage =
                             (if truthy (getPropOpt responseData ''message'')
                              then getPropOpt responseData ''message''
                              else JStr ''No message received from webhook'')
                       in s\<lparr>messages := removeTyping (messages s) @
                            [\<lparr>id' = toString (now + 1), text' = actualMessage,
                              type = creator, timestamp = now\<rparr>],
                         toasts := toasts s @
                            [\<lparr>title = ''Response received'',
                              description = ''Received: '' @ ToString P actualMessage,
                              variant = default\<rparr>]\<rparr>)
                else
                  s\<lparr>messages := removeTyping (messages s),
                    toasts := toasts s @
                      [\<lparr>title = ''Webhook Error'',
                        description = ''Server responded with status '' @ toString (status response),
                        variant = destructive\<rparr>]\<rparr>)
      in s'\<lparr>isLoading := False\<rparr>)"

text \<open>
  src/unnamed/part\_000: no typing indicator, and the response is not looked at: every
  settled request that did not throw is reported as sent.
\<close>

definition handleSendMessage_begin_part_000 :: "platform \<Rightarrow> nat \<Rightarrow> state \<Rightarrow> state" where
  "handleSendMessage_begin_part_000 P now s =
     (if trim (inputValue s) = [] then s
      else
        let messageText = trim (inputValue s);
            newMessage = \<lparr>id' = toString now, text' = JStr messageText,
                          type = customer, timestamp = now\<rparr>
        in s\<lparr>isLoading := True,
             messages := messages s @ [newMessage],
             inputValue := [],
             fetches := fetches s @
               [\<lparr>url = ''https://burtsevtest.app.n8n.cloud/webhook/gemini-webhook'',
                 method' = ''POST'',
                 headers = [(''Content-Type'', ''application/json'')],
                 body = JSON_stringify P (JObj [(''messageText'', JStr messageText)])\<rparr>]\<rparr>)"

definition handleSendMessage_settle_part_000 :: "settlement \<Rightarrow> state \<Rightarrow> state" where
  "handleSendMessage_settle_part_000 outcome s =
     (let s' =
        (case outcome of
           Rejected \<Rightarrow>
             s\<lparr>toasts := toasts s @
                 [\<lparr>title = ''Warning'',
                   description = ''Message displayed but webhook call failed.'',
                   variant = destructive\<rparr>]\<rparr>
         | Fulfilled st b \<Rightarrow>
             s\<lparr>toasts := toasts s @
                 [\<lparr>title = ''Message sent'',
                   description = ''Your message has been processed successfully.'',
                   variant = default\<rparr>]\<rparr>)
      in s'\<lparr>isLoading := False\<rparr>)"

section \<open>A platform and states for the examples\<close>

text \<open>A platform that parses one body, \<open>{"message":"Hello"}\<close>, and rejects every other.\<close>

definition examplePlatform :: platform where
  \<open>examplePlatform =
     \<lparr>JSON_parse = (\<lambda>b. if b = ''{"message":"Hello"}''
                          then Some (JObj [(''message'', JStr ''Hello'')]) else None),
      JSON_stringify = (\<lambda>v. ''{}''),
      ToString = (\<lambda>v. ''[object Object]'')\<rparr>\<close>

text \<open>The initial state after the user typed \<open>hi\<close> with blanks around it.\<close>

definition typedHi :: state where
  "typedHi = (initial 0)\<lparr>inputValue := '' hi ''\<rparr>"

text \<open>A transcript that holds the typing indicator twice.\<close>

definition twoIndicators :: state where
  "twoIndicators =
     (initial 0)\<lparr>messages :=
        [\<lparr>id' = ''typing'', text' = JStr ''AI is typing...'', type = creator, timestamp = 1\<rparr>,
         \<lparr>id' = ''7'', text' = JStr ''hi'', type = customer, timestamp = 2\<rparr>,
         \<lparr>id' = ''typing'', text' = JStr ''AI is typing...'', type = creator, timestamp = 3\<rparr>]\<rparr>"

section \<open>Basic facts\<close>

lemma digit_in: "d < 10 \<Longrightarrow> digit d \<in> set ''0123456789''"
  unfolding digit_def by (rule nth_mem) simp

lemma toString_digits: "set (toString n) \<subseteq> set ''0123456789''"
proof (induction n rule: toString.induct)
  case (1 n)
  show ?case
  proof (cases "n < 10")
    case True
    then show ?thesis using digit_in[of n] by (subst toString.simps) simp
  next
    case False
    have "n mod 10 < 10" by simp
    then have "digit (n mod 10) \<in> set ''0123456789''" by (rule digit_in)
    with False 1 show ?thesis by (subst toString.simps) simp
  qed
qed

text \<open>An identifier made from the clock is never the reserved one.\<close>

lemma toString_not_typing: "toString n \<noteq> ''typing''"
proof
  assume "toString n = ''typing''"
  then have "CHR ''t'' \<in> set (toString n)" by simp
  with toString_digits[of n] show False by auto
qed

text \<open>The trimmed input is empty exactly when the input is empty or all white space.\<close>

lemma dropWhile_all: "(\<forall>c \<in> set (dropWhile Q xs). Q c) \<longleftrightarrow> (\<forall>c \<in> set xs. Q c)"
  by (induction xs) auto

lemma trim_blank_iff: "trim s = [] \<longleftrightarrow> (\<forall>c \<in> set s. isWhiteSpace c)"
proof -
  have "trim s = [] \<longleftrightarrow> (\<forall>c \<in> set (dropWhile isWhiteSpace s). isWhiteSpace c)"
    by (simp add: trim_def dropWhile_eq_Nil_conv)
  then show ?thesis by (simp add: dropWhile_all)
qed

lemma removeTyping_clean: "m \<in> set (removeTyping ms) \<Longrightarrow> id' m \<noteq> ''typing''"
  by (simp add: removeTyping_def)

lemma removeTyping_append: "removeTyping (xs @ ys) = removeTyping xs @ removeTyping ys"
  by (simp add: removeTyping_def)

lemma removeTyping_idem: "removeTyping (removeTyping xs) = removeTyping xs"
  by (simp add: removeTyping_def)

lemma connectionError_messages: "messages (connectionError s) = removeTyping (messages s)"
  by (simp add: connectionError_def)

subsection \<open>The handler before the request\<close>

lemma begin_blank: "trim (inputValue s) = [] \<Longrightarrow> handleSendMessage_begin P now s = s"
  by (simp add: handleSendMessage_begin_def)

lemma begin_messages:
  "trim (inputValue s) \<noteq> [] \<Longrightarrow>
   messages (handleSendMessage_begin P now s) =
     messages s @
       [\<lparr>id' = toString now, text' = JStr (trim (inputValue s)), type = customer,
         timestamp = now\<rparr>,
        \<lparr>id' = ''typing'', text' = JStr ''AI is typing...'', type = creator,
         timestamp = now\<rparr>]"
  by (simp add: handleSendMessage_begin_def Let_def)

lemma begin_is_rendered:
  "handleSendMessage_begin P now s = handleSendMessage_begin_rendered P now (inputValue s) s"
  by (simp add: handleSendMessage_begin_def handleSendMessage_begin_rendered_def)

lemma begin_rendered_blank:
  "trim rendered = [] \<Longrightarrow> handleSendMessage_begin_rendered P now rendered s = s"
  by (simp add: handleSendMessage_begin_rendered_def)

lemma begin_rendered_messages:
  "trim rendered \<noteq> [] \<Longrightarrow>
   messages (handleSendMessage_begin_rendered P now rendered s) =
     messages s @
       [\<lparr>id' = toString now, text' = JStr (trim rendered), type = customer,
         timestamp = now\<rparr>,
        \<lparr>id' = ''typing'', text' = JStr ''AI is typing...'', type = creator,
         timestamp = now\<rparr>]"
  by (simp add: handleSendMessage_begin_rendered_def Let_def)



subsection \<open>The handler after the request: one equation for each way it can go\<close>

lemma settle_rejected:
  "handleSendMessage_settle P now Rejected s = (connectionError s)\<lparr>isLoading := False\<rparr>"
  by (simp add: handleSendMessage_settle_def)

lemma settle_not_ok:
  "\<not> (200 \<le> st \<and> st \<le> 299) \<Longrightarrow>
   handleSendMessage_settle P now (Fulfilled st b) s =
     s\<lparr>messages := removeTyping (messages s),
       toasts := toasts s @
         [\<lparr>title = ''Webhook Error'',
           description = ''Server responded with status '' @ toString st,
           variant = destructive\<rparr>],
       isLoading := False\<rparr>"
  by (auto simp add: handleSendMessage_settle_def ok_def Let_def)

lemma settle_ok:
  "200 \<le> st \<Longrightarrow> st \<le> 299 \<Longrightarrow>
   handleSendMessage_settle P now (Fulfilled st b) s =
     (case readResponseMessage P \<lparr>status = st, content = b, bodyUsed = False\<rparr> of
        Inl error \<Rightarrow> (connectionError s)\<lparr>isLoading := False\<rparr>
      | Inr responseMessage \<Rightarrow>
          s\<lparr>messages := removeTyping (messages s) @
               [\<lparr>id' = toString (now + 1),
                 text' = (if truthy responseMessage then responseMessage
                          else JStr ''No response received''),
                 type = creator, timestamp = now\<rparr>],
            toasts := toasts s @
               [\<lparr>title = ''Response received'',
                 description = ''AI has responded to your message.'',
                 variant = default\<rparr>],
            isLoading := False\<rparr>)"
  by (simp add: handleSendMessage_settle_def ok_def Let_def split: sum.splits)

subsection \<open>Reading the body\<close>

text \<open>
  A body that is there and is not JSON: \<open>json()\<close> has read it when it throws, so
  \<open>text()\<close> throws too, and the exception leaves the inner \<open>try\<close>.
\<close>

lemma read_unparsable:
  "JSON_parse P b = None \<Longrightarrow>
   readResponseMessage P \<lparr>status = st, content = Some b, bodyUsed = False\<rparr> = Inl TypeError"
  by (simp add: readResponseMessage_def response_json_def response_text_def)

text \<open>A null body can be read again: \<open>text()\<close> gives the empty string.\<close>

lemma read_null_body:
  "JSON_parse P [] = None \<Longrightarrow>
   readResponseMessage P \<lparr>status = st, content = None, bodyUsed = False\<rparr> = Inr (JStr [])"
  by (simp add: readResponseMessage_def response_json_def response_text_def)

lemma read_parsed:
  "JSON_parse P b = Some v \<Longrightarrow>
   readResponseMessage P \<lparr>status = st, content = Some b, bodyUsed = False\<rparr> =
     (case extractMessage P v of Inl e \<Rightarrow> Inl TypeError | Inr m \<Rightarrow> Inr m)"
  by (simp add: readResponseMessage_def response_json_def response_text_def split: sum.splits)

text \<open>What a settled request does to the transcript, whichever way it went.\<close>

lemma settle_messages_cases:
  "messages (handleSendMessage_settle P now outcome s) = removeTyping (messages s) \<or>
   (\<exists>v. v \<noteq> JStr [] \<and>
     messages (handleSendMessage_settle P now outcome s) =
       removeTyping (messages s) @
         [\<lparr>id' = toString (now + 1), text' = v, type = creator, timestamp = now\<rparr>])"
proof (cases outcome)
  case Rejected
  then show ?thesis by (simp add: settle_rejected connectionError_messages)
next
  case (Fulfilled st b)
  show ?thesis
  proof (cases "200 \<le> st \<and> st \<le> 299")
    case False
    then show ?thesis using Fulfilled by (simp add: settle_not_ok)
  next
    case True
    show ?thesis
    proof (cases "readResponseMessage P \<lparr>status = st, content = b, bodyUsed = False\<rparr>")
      case (Inl e)
      then show ?thesis using True Fulfilled by (simp add: settle_ok connectionError_messages)
    next
      case (Inr m)
      then show ?thesis using True Fulfilled by (auto simp add: settle_ok)
    qed
  qed
qed

lemma settle_frame:
  "inputValue (handleSendMessage_settle P now outcome s) = inputValue s
   \<and> fetches (handleSendMessage_settle P now outcome s) = fetches s
   \<and> settled (handleSendMessage_settle P now outcome s) = settled s
   \<and> \<not> isLoading (handleSendMessage_settle P now outcome s)"
proof (cases outcome)
  case Rejected
  then show ?thesis by (simp add: settle_rejected connectionError_def)
next
  case (Fulfilled st b)
  show ?thesis
  proof (cases "200 \<le> st \<and> st \<le> 299")
    case False
    then show ?thesis using Fulfilled by (simp add: settle_not_ok)
  next
    case True
    then show ?thesis using Fulfilled
      by (simp add: settle_ok connectionError_def split: sum.splits)
  qed
qed

lemma removeTyping_begin:
  "trim (inputValue s) \<noteq> [] \<Longrightarrow>
   removeTyping (messages (handleSendMessage_begin P now s)) =
     removeTyping (messages s) @
       [\<lparr>id' = toString now, text' = JStr (trim (inputValue s)), type = customer,
         timestamp = now\<rparr>]"
  by (simp add: begin_messages removeTyping_def toString_not_typing)

subsection \<open>The chain that picks the text of the reply\<close>

lemma extract_response_first:
  "map_of kvs ''response'' = Some r \<Longrightarrow> truthy r \<Longrightarrow> extractMessage P (JObj kvs) = Inr r"
  by (simp add: extractMessage_def)

lemma extract_message_second:
  "\<not> truthy (getPropOpt (JObj kvs) ''response'') \<Longrightarrow>
   map_of kvs ''message'' = Some m \<Longrightarrow> truthy m \<Longrightarrow>
   extractMessage P (JObj kvs) = Inr m"
  by (auto simp add: extractMessage_def split: option.splits)

lemma extract_text_third:
  "\<not> truthy (getPropOpt (JObj kvs) ''response'') \<Longrightarrow>
   \<not> truthy (getPropOpt (JObj kvs) ''message'') \<Longrightarrow>
   map_of kvs ''text'' = Some t \<Longrightarrow> truthy t \<Longrightarrow>
   extractMessage P (JObj kvs) = Inr t"
  by (auto simp add: extractMessage_def split: option.splits)

lemma extract_string: "extractMessage P (JStr str) = Inr (JStr str)"
  by (simp add: extractMessage_def)

lemma extract_stringify:
  "\<not> truthy (getPropOpt (JObj kvs) ''response'') \<Longrightarrow>
   \<not> truthy (getPropOpt (JObj kvs) ''message'') \<Longrightarrow>
   \<not> truthy (getPropOpt (JObj kvs) ''text'') \<Longrightarrow>
   extractMessage P (JObj kvs) = Inr (JStr (JSON_stringify P (JObj kvs)))"
  by (auto simp add: extractMessage_def split: option.splits)

lemma extract_null: "extractMessage P JNull = Inl TypeError"
  by (simp add: extractMessage_def)

lemma extract_defined:
  "v \<noteq> JNull \<Longrightarrow> v \<noteq> JUndefined \<Longrightarrow> \<exists>m. extractMessage P v = Inr m"
  by (cases v) (auto simp add: extractMessage_def split: option.splits)

text \<open>
  A 2xx response whose body parses, to anything but \<open>null\<close>: the transcript gains the
  customer's message and one reply, and the indicator is gone.
\<close>

lemma parsed_reply_is_appended:
  assumes "trim (inputValue s) \<noteq> []" and "200 \<le> st" and "st \<le> 299"
    and "JSON_parse P b = Some v" and "extractMessage P v = Inr m"
  shows "messages (handleSendMessage P now now' (Fulfilled st (Some b)) s) =
           removeTyping (messages s) @
             [\<lparr>id' = toString now, text' = JStr (trim (inputValue s)), type = customer,
               timestamp = now\<rparr>,
              \<lparr>id' = toString (now' + 1),
               text' = (if truthy m then m else JStr ''No response received''),
               type = creator, timestamp = now'\<rparr>]"
  using assms
  by (simp add: handleSendMessage_def settle_ok read_parsed removeTyping_begin)

text \<open>A 2xx response with a null body: the fixed text.\<close>

lemma null_body_gets_fallback:
  assumes "200 \<le> st" and "st \<le> 299" and "JSON_parse P [] = None"
  shows "messages (handleSendMessage_settle P now (Fulfilled st None) s) =
           removeTyping (messages s) @
             [\<lparr>id' = toString (now + 1), text' = JStr ''No response received'',
               type = creator, timestamp = now\<rparr>]"
  using assms by (simp add: settle_ok read_null_body)

text \<open>Whatever a settled request adds to the transcript, its text is not the empty string.\<close>

lemma reply_text_never_empty:
  "m \<in> set (messages (handleSendMessage_settle P now outcome s)) \<Longrightarrow>
   m \<notin> set (messages s) \<Longrightarrow> text' m \<noteq> JStr []"
  using settle_messages_cases [of P now outcome s]
  by (auto simp add: removeTyping_def)

subsection \<open>Steps and runs\<close>

lemma step_messages:
  "(\<exists>suf. messages (step P s e) = messages s @ suf) \<or>
   (\<exists>suf. messages (step P s e) = removeTyping (messages s) @ suf)"
proof (cases e)
  case (Change v)
  then show ?thesis by (simp add: Input_onChange_def)
next
  case (Submit now rendered)
  then show ?thesis
    by (cases "trim rendered = []")
       (simp_all add: begin_rendered_blank begin_rendered_messages)
next
  case (Call now)
  then show ?thesis
    by (cases "trim (inputValue s) = []") (simp_all add: begin_blank begin_messages)
next
  case (Settle now outcome)
  show ?thesis
  proof (cases "settled s < length (fetches s)")
    case False
    then show ?thesis using Settle by simp
  next
    case True
    then show ?thesis
      using Settle settle_messages_cases [of P now outcome "s\<lparr>settled := settled s + 1\<rparr>"]
      by auto
  qed
qed

lemma step_prefix:
  "prefix (removeTyping (messages s)) (removeTyping (messages (step P s e)))"
  using step_messages [of P s e]
  by (auto simp add: removeTyping_append removeTyping_idem)

lemma run_prefix:
  "prefix (removeTyping (messages s)) (removeTyping (messages (run P s es)))"
proof (induction es arbitrary: s)
  case Nil
  then show ?case by (simp add: run_def)
next
  case (Cons e es)
  have "prefix (removeTyping (messages s)) (removeTyping (messages (step P s e)))"
    by (rule step_prefix)
  also have "prefix (removeTyping (messages (step P s e)))
                    (removeTyping (messages (run P (step P s e) es)))"
    by (rule Cons.IH)
  finally show ?case by (simp add: run_def)
qed

subsection \<open>The other revisions\<close>

lemma part_001_begin_blank:
  "trim (inputValue s) = [] \<Longrightarrow> handleSendMessage_begin_part_001 P now s = s"
  by (simp add: handleSendMessage_begin_part_001_def)

lemma part_001_message_field:
  assumes "JSON_parse P b = Some (JObj [(''message'', JStr ''Hello'')])"
    and "200 \<le> st" and "st \<le> 299"
  shows "messages (handleSendMessage_settle_part_001 P now (Fulfilled st (Some b)) s) =
           removeTyping (messages s) @
           [\<lparr>id' = toString (now + 1), text' = JStr ''Hello'', type = creator,
             timestamp = now\<rparr>]"
  using assms
  by (simp add: handleSendMessage_settle_part_001_def ok_def response_json_def Let_def)

text \<open>part\_001 has no path for a body that is not JSON: the outer \<open>catch\<close> takes it.\<close>

lemma part_001_unparsable:
  assumes "JSON_parse P b = None" and "200 \<le> st" and "st \<le> 299"
  shows "handleSendMessage_settle_part_001 P now (Fulfilled st (Some b)) s =
           (connectionError s)\<lparr>isLoading := False\<rparr>"
  using assms
  by (simp add: handleSendMessage_settle_part_001_def ok_def response_json_def Let_def)

text \<open>On a network error and on a status outside 2xx, part\_001 does what Index.tsx does.\<close>

lemma part_001_rejected:
  "handleSendMessage_settle_part_001 P now Rejected s = handleSendMessage_settle P now Rejected s"
  by (simp add: handleSendMessage_settle_part_001_def handleSendMessage_settle_def)

lemma part_001_not_ok:
  "\<not> (200 \<le> st \<and> st \<le> 299) \<Longrightarrow>
   handleSendMessage_settle_part_001 P now (Fulfilled st b) s =
   handleSendMessage_settle P now (Fulfilled st b) s"
  by (auto simp add: handleSendMessage_settle_part_001_def handleSendMessage_settle_def ok_def
      Let_def)

lemma part_000_begin_blank:
  "trim (inputValue s) = [] \<Longrightarrow> handleSendMessage_begin_part_000 P now s = s"
  by (simp add: handleSendMessage_begin_part_000_def)

text \<open>part\_000 does not read the status: a 500 is reported as a message sent.\<close>

lemma part_000_status_ignored:
  "handleSendMessage_settle_part_000 (Fulfilled 500 b) s =
     s\<lparr>toasts := toasts s @
         [\<lparr>title = ''Message sent'',
           description = ''Your message has been processed successfully.'',
           variant = default\<rparr>],
       isLoading := False\<rparr>"
  by (simp add: handleSendMessage_settle_part_000_def)

section \<open>The claims\<close>

text \<open>
  C1 (the code departs from it). The claim: after a submit of non-blank input that is answered
  with a 2xx status, the transcript has one new customer message with the trimmed input, one
  new reply, and no typing indicator. What the handler of Index.tsx does when the 2xx body is
  there but is not JSON: the transcript gains the customer's message only. \<open>response.json()\<close>
  has read the body when it throws, \<open>response.text()\<close> in the inner \<open>catch\<close> throws in
  turn, and the outer \<open>catch\<close> takes over. (For a body that parses, see
  \<open>parsed_reply_is_appended\<close>.)
\<close>

theorem success_without_reply:
  assumes "trim (inputValue s) \<noteq> []" and "200 \<le> st" and "st \<le> 299"
    and "JSON_parse P b = None"
  shows "messages (handleSendMessage P now now' (Fulfilled st (Some b)) s) =
           removeTyping (messages s) @
             [\<lparr>id' = toString now, text' = JStr (trim (inputValue s)), type = customer,
               timestamp = now\<rparr>]"
  using assms
  by (simp add: handleSendMessage_def settle_ok read_unparsable connectionError_messages
      removeTyping_begin)

theorem success_without_reply_witness:
  "trim (inputValue typedHi) \<noteq> [] \<and> JSON_parse examplePlatform ''plain text reply'' = None
   \<and> messages (handleSendMessage examplePlatform 5 9
        (Fulfilled 200 (Some ''plain text reply'')) typedHi) =
       messages (initial 0) @
       [\<lparr>id' = ''5'', text' = JStr ''hi'', type = customer, timestamp = 5\<rparr>]"
proof -
  have i: "trim (inputValue typedHi) \<noteq> []"
    by (simp add: typedHi_def initial_def trim_def isWhiteSpace_def)
  have p: "JSON_parse examplePlatform ''plain text reply'' = None"
    by (simp add: examplePlatform_def)
  have a: "(200::nat) \<le> 200" and b: "(200::nat) \<le> 299" by simp_all
  have t5: "toString 5 = ''5''" by code_simp
  show ?thesis
    using i p success_without_reply [OF i a b p, of 5 9]
    by (simp add: typedHi_def initial_def trim_def isWhiteSpace_def removeTyping_def t5)
qed




text \<open>
  C3. When the trimmed input is the empty string (the input is empty or only white space),
  the handler leaves the state as it is: no message is appended and no request is sent,
  however the request would have settled.
\<close>

theorem blank_input_ignored:
  assumes "trim rawText = []"
  shows "handleSendMessage P now now' outcome (s\<lparr>inputValue := rawText\<rparr>)
           = s\<lparr>inputValue := rawText\<rparr>
       \<and> messages (handleSendMessage P now now' outcome (s\<lparr>inputValue := rawText\<rparr>))
           = messages s
       \<and> fetches (handleSendMessage P now now' outcome (s\<lparr>inputValue := rawText\<rparr>))
           = fetches s"
  using assms by (simp add: handleSendMessage_def begin_blank)

theorem blank_input_ignored_witness:
  "trim [CHR 0x20, CHR 0x09, CHR 0x20] = []
   \<and> messages (handleSendMessage examplePlatform 5 9 (Fulfilled 200 (Some ''ok''))
        ((initial 0)\<lparr>inputValue := [CHR 0x20, CHR 0x09, CHR 0x20]\<rparr>)) = messages (initial 0)
   \<and> fetches (handleSendMessage examplePlatform 5 9 (Fulfilled 200 (Some ''ok''))
        ((initial 0)\<lparr>inputValue := [CHR 0x20, CHR 0x09, CHR 0x20]\<rparr>)) = []"
proof -
  have blank: "trim [CHR 0x20, CHR 0x09, CHR 0x20] = []"
    by (simp add: trim_def isWhiteSpace_def)
  show ?thesis
    using blank
      blank_input_ignored [OF blank, of examplePlatform 5 9 "Fulfilled 200 (Some ''ok'')"
        "initial 0"]
    by (simp add: initial_def)
qed

text \<open>
  C4. A 2xx response whose body parses to the object \<open>{"message":"Hello"}\<close>: the handler
  removes the typing indicator and appends one reply whose text is exactly \<open>Hello\<close>.
\<close>

theorem message_field_is_shown:
  assumes "JSON_parse P b = Some (JObj [(''message'', JStr ''Hello'')])"
    and "200 \<le> st" and "st \<le> 299"
  shows "messages (handleSendMessage_settle P now (Fulfilled st (Some b)) s) =
           removeTyping (messages s) @
           [\<lparr>id' = toString (now + 1), text' = JStr ''Hello'', type = creator,
             timestamp = now\<rparr>]"
  using assms by (simp add: settle_ok read_parsed extractMessage_def)

theorem message_field_is_shown_witness:
  \<open>JSON_parse examplePlatform ''{"message":"Hello"}''
     = Some (JObj [(''message'', JStr ''Hello'')])
   \<and> messages (handleSendMessage_settle examplePlatform 9
        (Fulfilled 200 (Some ''{"message":"Hello"}''))
        (handleSendMessage_begin examplePlatform 5 typedHi)) =
       messages (initial 0) @
       [\<lparr>id' = ''5'', text' = JStr ''hi'', type = customer, timestamp = 5\<rparr>,
        \<lparr>id' = ''10'', text' = JStr ''Hello'', type = creator, timestamp = 9\<rparr>]\<close>
proof -
  have p: \<open>JSON_parse examplePlatform ''{"message":"Hello"}''
             = Some (JObj [(''message'', JStr ''Hello'')])\<close>
    by (simp add: examplePlatform_def)
  have t5: "toString 5 = ''5''" by code_simp
  have t10: "toString 10 = ''10''" by code_simp
  have a: "(200::nat) \<le> 200" and b: "(200::nat) \<le> 299" by simp_all
  show ?thesis
    using p
      message_field_is_shown [OF p a b, of 9 "handleSendMessage_begin examplePlatform 5 typedHi"]
    by (simp add: handleSendMessage_begin_def typedHi_def initial_def trim_def isWhiteSpace_def
        Let_def removeTyping_def t5 t10)
qed

text \<open>
  C5 (the code departs from it). The claim: a 2xx response whose body is the plain text
  \<open>plain text reply\<close>, which is not JSON, gives a reply with exactly that text. What the
  handler of Index.tsx does: reading the reply ends in a TypeError, no reply is appended, the
  typing indicator is removed and the connection error is shown.
\<close>

theorem plain_text_reply_is_dropped:
  assumes "JSON_parse P ''plain text reply'' = None"
  shows "readResponseMessage P
           \<lparr>status = 200, content = Some ''plain text reply'', bodyUsed = False\<rparr>
           = Inl TypeError
       \<and> messages (handleSendMessage_settle P now (Fulfilled 200 (Some ''plain text reply'')) s)
           = removeTyping (messages s)
       \<and> toasts (handleSendMessage_settle P now (Fulfilled 200 (Some ''plain text reply'')) s)
           = toasts s @
             [\<lparr>title = ''Connection Error'',
               description = ''Failed to connect to the webhook. Please try again.'',
               variant = destructive\<rparr>]"
  using assms by (simp add: settle_ok read_unparsable connectionError_def)

theorem plain_text_reply_is_dropped_witness:
  "JSON_parse examplePlatform ''plain text reply'' = None
   \<and> map text' (messages (handleSendMessage_settle examplePlatform 9
         (Fulfilled 200 (Some ''plain text reply''))
         (handleSendMessage_begin examplePlatform 5 typedHi)))
      = [JStr ''Hey there! What can I help you with today?'', JStr ''hi'']"
proof -
  have p: "JSON_parse examplePlatform ''plain text reply'' = None"
    by (simp add: examplePlatform_def)
  show ?thesis
    using p
      plain_text_reply_is_dropped [OF p, of 9 "handleSendMessage_begin examplePlatform 5 typedHi"]
    by (simp add: handleSendMessage_begin_def typedHi_def initial_def trim_def isWhiteSpace_def
        Let_def removeTyping_def toString_not_typing)
qed

text \<open>
  C6. A response with a status outside 2xx, such as 500: every typing indicator is removed
  from the transcript, nothing is appended to it, exactly one notification is added, a
  destructive one that names the status, and the flag is cleared.
\<close>

theorem http_error_removes_indicator:
  assumes "\<not> (200 \<le> st \<and> st \<le> 299)"
  shows "messages (handleSendMessage_settle P now (Fulfilled st b) s) = removeTyping (messages s)
       \<and> filter (\<lambda>m. id' m = ''typing'')
            (messages (handleSendMessage_settle P now (Fulfilled st b) s)) = []
       \<and> toasts (handleSendMessage_settle P now (Fulfilled st b) s) =
           toasts s @ [\<lparr>title = ''Webhook Error'',
                        description = ''Server responded with status '' @ toString st,
                        variant = destructive\<rparr>]
       \<and> \<not> isLoading (handleSendMessage_settle P now (Fulfilled st b) s)"
  using assms by (simp add: settle_not_ok removeTyping_def)

theorem http_error_removes_indicator_witness:
  "\<not> (200 \<le> (500::nat) \<and> (500::nat) \<le> 299)
   \<and> messages (handleSendMessage_settle examplePlatform 9 (Fulfilled 500 (Some ''oops''))
        (handleSendMessage_begin examplePlatform 5 typedHi)) =
       messages (initial 0) @
       [\<lparr>id' = ''5'', text' = JStr ''hi'', type = customer, timestamp = 5\<rparr>]
   \<and> toasts (handleSendMessage_settle examplePlatform 9 (Fulfilled 500 (Some ''oops''))
        (handleSendMessage_begin examplePlatform 5 typedHi)) =
       [\<lparr>title = ''Webhook Error'', description = ''Server responded with status 500'',
         variant = destructive\<rparr>]"
proof -
  have st: "\<not> (200 \<le> (500::nat) \<and> (500::nat) \<le> 299)" by simp
  have t5: "toString 5 = ''5''" by code_simp
  have t500: "toString 500 = ''500''" by code_simp
  show ?thesis
    using st
      http_error_removes_indicator [OF st, of examplePlatform 9 "Some ''oops''"
        "handleSendMessage_begin examplePlatform 5 typedHi"]
    by (simp add: handleSendMessage_begin_def typedHi_def initial_def trim_def isWhiteSpace_def
        Let_def removeTyping_def t5 t500)
qed

text \<open>
  C7. A network error leaves the component as a response with status 500 does: the same
  transcript (the typing indicators removed, nothing appended), the same flag, input and
  requests, and one more notification of the same, destructive, kind. Only the wording of
  the notification differs: it is the connection error.
\<close>

theorem network_error_like_http_error:
  "messages (handleSendMessage_settle P now Rejected s) =
     messages (handleSendMessage_settle P now (Fulfilled 500 b) s)
   \<and> messages (handleSendMessage_settle P now Rejected s) = removeTyping (messages s)
   \<and> isLoading (handleSendMessage_settle P now Rejected s) =
     isLoading (handleSendMessage_settle P now (Fulfilled 500 b) s)
   \<and> inputValue (handleSendMessage_settle P now Rejected s) =
     inputValue (handleSendMessage_settle P now (Fulfilled 500 b) s)
   \<and> fetches (handleSendMessage_settle P now Rejected s) =
     fetches (handleSendMessage_settle P now (Fulfilled 500 b) s)
   \<and> map variant (toasts (handleSendMessage_settle P now Rejected s)) =
     map variant (toasts (handleSendMessage_settle P now (Fulfilled 500 b) s))
   \<and> toasts (handleSendMessage_settle P now Rejected s) =
       toasts s @ [\<lparr>title = ''Connection Error'',
                    description = ''Failed to connect to the webhook. Please try again.'',
                    variant = destructive\<rparr>]"
  by (simp add: settle_rejected settle_not_ok connectionError_def)

theorem network_error_like_http_error_witness:
  "messages (handleSendMessage_settle examplePlatform 9 Rejected
      (handleSendMessage_begin examplePlatform 5 typedHi)) =
     messages (initial 0) @
     [\<lparr>id' = ''5'', text' = JStr ''hi'', type = customer, timestamp = 5\<rparr>]
   \<and> messages (handleSendMessage_settle examplePlatform 9 (Fulfilled 500 None)
      (handleSendMessage_begin examplePlatform 5 typedHi)) =
     messages (initial 0) @
     [\<lparr>id' = ''5'', text' = JStr ''hi'', type = customer, timestamp = 5\<rparr>]"
proof -
  have t5: "toString 5 = ''5''" by code_simp
  show ?thesis
    using network_error_like_http_error [of examplePlatform 9
        "handleSendMessage_begin examplePlatform 5 typedHi" None]
    by (simp add: handleSendMessage_begin_def typedHi_def initial_def trim_def isWhiteSpace_def
        Let_def removeTyping_def t5 settle_rejected connectionError_def)
qed

text \<open>
  C8 (the code departs from it). The claim: on every 2xx response the text of the reply comes
  from the known fields in order, then the data's JSON text, then the raw body when parsing
  fails, then a fixed text, so that it is never empty. What the handler of Index.tsx does
  when parsing fails on a body that is there, or when the body is JSON \<open>null\<close>: the raw body
  is not used and no reply is appended at all; the typing indicators are removed and the
  connection error is shown. The other links of the chain hold, see \<open>extract_response_first\<close>
  to \<open>extract_stringify\<close>, \<open>null_body_gets_fallback\<close> and \<open>reply_text_never_empty\<close>.
\<close>

theorem raw_body_fallback_never_taken:
  assumes "200 \<le> st" and "st \<le> 299"
    and "JSON_parse P b = None \<or> JSON_parse P b = Some JNull"
  shows "messages (handleSendMessage_settle P now (Fulfilled st (Some b)) s) =
           removeTyping (messages s)
       \<and> toasts (handleSendMessage_settle P now (Fulfilled st (Some b)) s) =
           toasts s @
             [\<lparr>title = ''Connection Error'',
               description = ''Failed to connect to the webhook. Please try again.'',
               variant = destructive\<rparr>]"
  using assms
  by (auto simp add: settle_ok read_unparsable read_parsed extractMessage_def
      connectionError_def)

theorem raw_body_fallback_never_taken_witness:
  "JSON_parse examplePlatform ''<html>busy</html>'' = None
   \<and> messages (handleSendMessage_settle examplePlatform 9
        (Fulfilled 201 (Some ''<html>busy</html>'')) twoIndicators) =
      [\<lparr>id' = ''7'', text' = JStr ''hi'', type = customer, timestamp = 2\<rparr>]"
proof -
  have p: "JSON_parse examplePlatform ''<html>busy</html>'' = None"
    by (simp add: examplePlatform_def)
  have a: "(200::nat) \<le> 201" and b: "(201::nat) \<le> 299" by simp_all
  show ?thesis
    using p raw_body_fallback_never_taken [OF a b disjI1 [OF p], of 9 twoIndicators]
    by (simp add: twoIndicators_def initial_def removeTyping_def)
qed

text \<open>
  C9. Every step of the component (typing, a submit, a call of the handler, a request that
  settles) either appends to the transcript or removes entries with the identifier
  \<open>typing\<close> and appends; and over every sequence of steps the entries that are not typing
  indicators stay as they were, in their order, at the front of those of the later
  transcript.
\<close>

theorem only_the_indicator_is_removed:
  "((\<exists>suf. messages (step P s e) = messages s @ suf) \<or>
    (\<exists>suf. messages (step P s e) = removeTyping (messages s) @ suf))
   \<and> prefix (removeTyping (messages s)) (removeTyping (messages (run P s es)))"
  using step_messages [of P s e] run_prefix [of s P es] by simp

theorem only_the_indicator_is_removed_witness:
  "prefix (messages (initial 0))
     (removeTyping (messages (run examplePlatform (initial 0)
        [Change '' hi '', Submit 5 '' hi '', Submit 6 '' hi '', Settle 9 Rejected])))
   \<and> messages (run examplePlatform (initial 0)
        [Change '' hi '', Submit 5 '' hi '', Submit 6 '' hi '', Settle 9 Rejected]) =
      messages (initial 0) @
      [\<lparr>id' = ''5'', text' = JStr ''hi'', type = customer, timestamp = 5\<rparr>,
       \<lparr>id' = ''6'', text' = JStr ''hi'', type = customer, timestamp = 6\<rparr>]"
proof -
  have t5: "toString 5 = ''5''" by code_simp
  have t6: "toString 6 = ''6''" by code_simp
  have r: "removeTyping (messages (initial 0)) = messages (initial 0)"
    by (simp add: removeTyping_def initial_def)
  have m: "messages (run examplePlatform (initial 0)
        [Change '' hi '', Submit 5 '' hi '', Submit 6 '' hi '', Settle 9 Rejected]) =
      messages (initial 0) @
      [\<lparr>id' = ''5'', text' = JStr ''hi'', type = customer, timestamp = 5\<rparr>,
       \<lparr>id' = ''6'', text' = JStr ''hi'', type = customer, timestamp = 6\<rparr>]"
    by (simp add: run_def initial_def Input_onChange_def handleSendMessage_begin_rendered_def
        trim_def isWhiteSpace_def Let_def settle_rejected connectionError_def removeTyping_def
        t5 t6)
  show ?thesis
    using only_the_indicator_is_removed [of examplePlatform "initial 0" "Submit 5 '' hi ''"
        "[Change '' hi '', Submit 5 '' hi '', Submit 6 '' hi '', Settle 9 Rejected]"] r m
    by simp
qed

text \<open>
  C10. After a request has settled, in whichever way (a 2xx response, another status, a
  network error), the transcript holds no entry with the identifier \<open>typing\<close>, however
  many it held before: the removal is a filter over the whole transcript.
\<close>

theorem settled_transcript_has_no_indicator:
  "filter (\<lambda>m. id' m = ''typing'') (messages (handleSendMessage_settle P now outcome s)) = []"
  using settle_messages_cases [of P now outcome s]
  by (auto simp add: removeTyping_def toString_not_typing filter_empty_conv)

theorem settled_transcript_has_no_indicator_witness:
  "length (filter (\<lambda>m. id' m = ''typing'') (messages twoIndicators)) = 2
   \<and> filter (\<lambda>m. id' m = ''typing'')
        (messages (handleSendMessage_settle examplePlatform 9 Rejected twoIndicators)) = []"
  using settled_transcript_has_no_indicator [of examplePlatform 9 Rejected twoIndicators]
  by (simp add: twoIndicators_def initial_def)

end
